theory Spec2Isabelle
  imports Main
begin

section \<open>Collaborators of \<open>bokeh.core.state\<close>\<close>

text \<open>
  \<open>state.py\<close> imports \<open>Document\<close>, \<open>Resources\<close>, \<open>_SessionCoordinates\<close> and
  \<open>DEFAULT_SESSION_ID\<close> from sibling modules and uses \<open>os.path.isfile\<close> and a module
  logger. Exceptions of Python are values of \<open>error\<close>.
\<close>

datatype error = ValueError | AttributeError

text \<open>
  Modelled from the spec: the class \<open>Document\<close> (module \<open>bokeh.document\<close>) is missing.
  The spec calls it a shared collection of plot models and says that \<open>reset\<close> installs
  a new empty one. A document is the list of the models it holds; \<open>Document()\<close>
  allocates an empty one. Objects live in a heap and are named by their position in
  it, so that two objects are the same object exactly when their references are equal.
\<close>

datatype Document = Document (roots: "nat list")

type_synonym doc_ref = nat

text \<open>
  What lies outside the \<open>State\<close> object: the heap of documents and the messages passed
  to \<open>logger.info\<close>, oldest first.
\<close>

record World =
  heap :: "Document list"
  info_log :: "string list"

definition Document_new :: "World \<Rightarrow> doc_ref \<times> World" where
  "Document_new w = (length (heap w), w\<lparr>heap := heap w @ [Document []]\<rparr>)"

text \<open>
  Modelled from the spec: the class \<open>_SessionCoordinates\<close> (module \<open>bokeh.resources\<close>)
  is missing. The spec gives its data as session id, url and app path, built from a
  dict of keyword arguments; built from the empty dict the coordinates are empty.
  \<open>new_SessionCoordinates\<close> is the object that the constructor builds when it accepts
  its arguments.
\<close>

record SessionCoordinates =
  sc_session_id :: "string option"
  sc_url :: "string option"
  sc_app_path :: "string option"

definition new_SessionCoordinates :: "(string \<times> string) list \<Rightarrow> SessionCoordinates" where
  "new_SessionCoordinates kwargs =
     \<lparr>sc_session_id = map_of kwargs ''session_id'',
      sc_url = map_of kwargs ''url'',
      sc_app_path = map_of kwargs ''app_path''\<rparr>"

text \<open>
  The parts of the environment that the sources do not fix are parameters: the
  constructor \<open>Resources(mode=..., root_dir=...)\<close>, which validates its arguments and
  may raise; \<open>os.path.isfile\<close>; and, for the session coordinates, which keyword
  arguments the constructor accepts (\<open>arg_ok\<close>, by keyword and value), the id that
  \<open>generate_session_id()\<close> returns, and how the base url, the full server url and the
  app path are derived from what is stored.
\<close>

record 'r Env =
  Resources :: "string \<Rightarrow> string option \<Rightarrow> error + 'r"
  isfile :: "string \<Rightarrow> bool"
  arg_ok :: "string \<Rightarrow> string \<Rightarrow> bool"
  generated_session_id :: string
  url_of :: "SessionCoordinates \<Rightarrow> string"
  server_url_of :: "SessionCoordinates \<Rightarrow> string"
  app_path_of :: "SessionCoordinates \<Rightarrow> string"

text \<open>
  Modelled from the spec: the constructor \<open>_SessionCoordinates(kwargs)\<close>. The spec
  delegates the validation of arguments to it; it raises \<open>ValueError\<close> when it is given
  an argument that it does not accept, and builds the coordinates otherwise. It
  validates the arguments that it is given, so it accepts the empty dict.
\<close>

definition SessionCoordinates_init ::
  "'r Env \<Rightarrow> (string \<times> string) list \<Rightarrow> error + SessionCoordinates" where
  "SessionCoordinates_init env kwargs =
     (if list_all (\<lambda>(k, v). arg_ok env k v) kwargs
      then Inr (new_SessionCoordinates kwargs) else Inl ValueError)"

text \<open>
  Modelled from the spec: the read accessors of \<open>_SessionCoordinates\<close>. The spec lists
  a session id and a none-tolerant variant of it, a base url, a full server url and an
  app path. The two session ids differ when no id is stored: the none-tolerant one
  reads \<open>None\<close>, the other one generates an id, stores it and reads it. Each accessor
  returns what was read and the coordinates after the read.
\<close>

definition coords_session_id_allowing_none ::
  "SessionCoordinates \<Rightarrow> string option \<times> SessionCoordinates" where
  "coords_session_id_allowing_none c = (sc_session_id c, c)"

definition coords_session_id :: "'r Env \<Rightarrow> SessionCoordinates \<Rightarrow> string \<times> SessionCoordinates" where
  "coords_session_id env c =
     (case sc_session_id c of
        Some s \<Rightarrow> (s, c)
      | None \<Rightarrow> (generated_session_id env, c\<lparr>sc_session_id := Some (generated_session_id env)\<rparr>))"

definition coords_url :: "'r Env \<Rightarrow> SessionCoordinates \<Rightarrow> string \<times> SessionCoordinates" where
  "coords_url env c = (url_of env c, c)"

definition coords_server_url :: "'r Env \<Rightarrow> SessionCoordinates \<Rightarrow> string \<times> SessionCoordinates" where
  "coords_server_url env c = (server_url_of env c, c)"

definition coords_app_path :: "'r Env \<Rightarrow> SessionCoordinates \<Rightarrow> string \<times> SessionCoordinates" where
  "coords_app_path env c = (app_path_of env c, c)"

section \<open>The class \<open>State\<close>\<close>

text \<open>A value stored in the file configuration dict: a string or a \<open>Resources\<close> object.\<close>

datatype 'r entry = Str string | Res 'r

text \<open>
  The attributes of a \<open>State\<close> instance. Python's leading underscore is written
  \<open>priv_\<close>. \<open>priv_file\<close> is \<open>None\<close> or a dict, kept as the list of its items in the
  order of the dict literal.
\<close>

record 'r State =
  last_comms_handle :: "nat option"
  priv_document :: doc_ref
  priv_file :: "(string \<times> 'r entry) list option"
  priv_notebook :: bool
  priv_session_coords :: SessionCoordinates
  priv_server_enabled :: bool

subsection \<open>Properties\<close>

definition document :: "'r State \<Rightarrow> doc_ref" where
  "document st = priv_document st"

definition document_setter :: "doc_ref \<Rightarrow> 'r State \<Rightarrow> 'r State" where
  "document_setter doc st = st\<lparr>priv_document := doc\<rparr>"

definition file_of :: "'r State \<Rightarrow> (string \<times> 'r entry) list option" where
  "file_of st = priv_file st"

definition notebook :: "'r State \<Rightarrow> bool" where
  "notebook st = priv_notebook st"

definition server_enabled :: "'r State \<Rightarrow> bool" where
  "server_enabled st = priv_server_enabled st"

text \<open>
  The five session properties return an accessor of the stored coordinates object.
  The object is kept by value, so what the accessor did to it is written back.
\<close>

definition session_id :: "'r Env \<Rightarrow> 'r State \<Rightarrow> string \<times> 'r State" where
  "session_id env st =
     (case coords_session_id env (priv_session_coords st) of
        (v, c) \<Rightarrow> (v, st\<lparr>priv_session_coords := c\<rparr>))"

definition session_id_allowing_none :: "'r State \<Rightarrow> string option \<times> 'r State" where
  "session_id_allowing_none st =
     (case coords_session_id_allowing_none (priv_session_coords st) of
        (v, c) \<Rightarrow> (v, st\<lparr>priv_session_coords := c\<rparr>))"

definition url :: "'r Env \<Rightarrow> 'r State \<Rightarrow> string \<times> 'r State" where
  "url env st =
     (case coords_url env (priv_session_coords st) of
        (v, c) \<Rightarrow> (v, st\<lparr>priv_session_coords := c\<rparr>))"

definition server_url :: "'r Env \<Rightarrow> 'r State \<Rightarrow> string \<times> 'r State" where
  "server_url env st =
     (case coords_server_url env (priv_session_coords st) of
        (v, c) \<Rightarrow> (v, st\<lparr>priv_session_coords := c\<rparr>))"

definition app_path :: "'r Env \<Rightarrow> 'r State \<Rightarrow> string \<times> 'r State" where
  "app_path env st =
     (case coords_app_path env (priv_session_coords st) of
        (v, c) \<Rightarrow> (v, st\<lparr>priv_session_coords := c\<rparr>))"

subsection \<open>Resetting\<close>

text \<open>
  \<open>_reset_keeping_doc\<close> builds the coordinates from \<open>dict()\<close>. There is no argument to
  reject, so the constructor returns \<open>new_SessionCoordinates []\<close>.
\<close>

definition reset_keeping_doc :: "'r State \<Rightarrow> 'r State" where
  "reset_keeping_doc st =
     st\<lparr>priv_file := None,
        priv_notebook := False,
        priv_session_coords := new_SessionCoordinates [],
        priv_server_enabled := False\<rparr>"

definition reset_with_doc :: "doc_ref \<Rightarrow> 'r State \<Rightarrow> 'r State" where
  "reset_with_doc doc st = reset_keeping_doc (st\<lparr>priv_document := doc\<rparr>)"

definition reset :: "'r State \<Rightarrow> World \<Rightarrow> 'r State \<times> World" where
  "reset st w = (case Document_new w of (doc, w') \<Rightarrow> (reset_with_doc doc st, w'))"

text \<open>
  \<open>__init__\<close> runs on a new instance that has no attribute yet. It assigns
  \<open>last_comms_handle\<close> and calls \<open>reset\<close>, which assigns every other attribute without
  reading any; \<open>raw\<close> stands for the instance before \<open>__init__\<close>.
\<close>

definition State_init :: "'r State \<Rightarrow> World \<Rightarrow> 'r State \<times> World" where
  "State_init raw w = reset (raw\<lparr>last_comms_handle := None\<rparr>) w"

subsection \<open>Output modes\<close>

definition exists_message :: "string \<Rightarrow> string" where
  "exists_message filename =
     ''Session output file '' @ [CHR 0x27] @ filename @ [CHR 0x27]
       @ '' already exists, will be overwritten.''"

definition output_file ::
  "'r Env \<Rightarrow> string \<Rightarrow> string \<Rightarrow> string \<Rightarrow> string option \<Rightarrow> 'r State \<Rightarrow> World
     \<Rightarrow> error + ('r State \<times> World)" where
  "output_file env filename title mode root_dir st w =
     (case Resources env mode root_dir of
        Inl e \<Rightarrow> Inl e
      | Inr res \<Rightarrow>
          Inr (st\<lparr>priv_file :=
                   Some [(''filename'', Str filename),
                         (''resources'', Res res),
                         (''title'', Str title)]\<rparr>,
               if isfile env filename
               then w\<lparr>info_log := info_log w @ [exists_message filename]\<rparr>
               else w))"

definition output_notebook :: "'r State \<Rightarrow> 'r State" where
  "output_notebook st = st\<lparr>priv_notebook := True\<rparr>"

text \<open>
  \<open>output_server\<close> builds the coordinates first. When the constructor raises, the
  exception leaves the method before either attribute is assigned.
\<close>

definition output_server ::
  "'r Env \<Rightarrow> string \<Rightarrow> string \<Rightarrow> string \<Rightarrow> 'r State \<Rightarrow> error + 'r State" where
  "output_server env sid base_url path st =
     (case SessionCoordinates_init env
             [(''session_id'', sid), (''url'', base_url), (''app_path'', path)] of
        Inl e \<Rightarrow> Inl e
      | Inr c \<Rightarrow> Inr (st\<lparr>priv_session_coords := c, priv_server_enabled := True\<rparr>))"

subsection \<open>Reading and assigning the public properties\<close>






subsection \<open>Runs of calls on one \<open>State\<close>\<close>

text \<open>
  What a client can do to a \<open>State\<close> through its public interface, one call after the
  other. \<open>New_document\<close> is a \<open>Document()\<close> that the client builds for itself. An
  \<open>output_file\<close> or \<open>output_server\<close> that raises has assigned nothing, so the run goes
  on from the state before the call.
\<close>

datatype call =
  Reset
  | Output_file string string string "string option"
  | Output_notebook
  | Output_server string string string
  | Set_document doc_ref
  | New_document

fun exec :: "'r Env \<Rightarrow> call \<Rightarrow> 'r State \<times> World \<Rightarrow> 'r State \<times> World" where
  "exec env Reset (st, w) = reset st w"
| "exec env (Output_file filename title mode root_dir) (st, w) =
     (case output_file env filename title mode root_dir st w of
        Inl e \<Rightarrow> (st, w)
      | Inr sw \<Rightarrow> sw)"
| "exec env Output_notebook (st, w) = (output_notebook st, w)"
| "exec env (Output_server sid base_url path) (st, w) =
     (case output_server env sid base_url path st of
        Inl e \<Rightarrow> (st, w)
      | Inr st' \<Rightarrow> (st', w))"
| "exec env (Set_document doc) (st, w) = (document_setter doc st, w)"
| "exec env New_document (st, w) = (st, snd (Document_new w))"

text \<open>The documents that the \<open>reset\<close> calls of a run install, in the order of the calls.\<close>

fun installed :: "'r Env \<Rightarrow> call list \<Rightarrow> 'r State \<times> World \<Rightarrow> doc_ref list" where
  "installed env [] sw = []"
| "installed env (c # cs) sw =
     (if c = Reset then [document (fst (exec env c sw))] else [])
       @ installed env cs (exec env c sw)"

subsection \<open>The public interface as a whole\<close>





subsection \<open>A concrete environment\<close>

text \<open>
  An environment to run the model in: a \<open>Resources\<close> constructor that accepts the modes
  named in the docstring of \<open>output_file\<close> and keeps its arguments, a file system that
  holds the one file \<open>old.html\<close>, session coordinates that reject a url starting with
  \<open>ws\<close> and an app path not starting with a slash, an empty heap and an instance
  before \<open>__init__\<close>. \<open>served_state\<close> is a new state after \<open>output_notebook()\<close> and
  \<open>output_server("x")\<close>.
\<close>

definition sample_Resources :: "string \<Rightarrow> string option \<Rightarrow> error + (string \<times> string option)" where
  "sample_Resources mode root_dir =
     (if mode \<in> set [''inline'', ''cdn'', ''relative'', ''relative-dev'', ''absolute'',
                      ''absolute-dev'']
      then Inr (mode, root_dir) else Inl ValueError)"

definition sample_env :: "(string \<times> string option) Env" where
  "sample_env =
     \<lparr>Resources = sample_Resources,
      isfile = (\<lambda>name. name = ''old.html''),
      arg_ok = (\<lambda>k v. if k = ''url'' then take 2 v \<noteq> ''ws''
                       else if k = ''app_path'' then take 1 v = ''/'' else True),
      generated_session_id = ''generated'',
      url_of = (\<lambda>c. case sc_url c of Some u \<Rightarrow> u | None \<Rightarrow> ''default''),
      server_url_of = (\<lambda>c. case (sc_url c, sc_app_path c) of
                              (Some u, Some a) \<Rightarrow> u @ a | _ \<Rightarrow> ''default''),
      app_path_of = (\<lambda>c. case sc_app_path c of Some a \<Rightarrow> a | None \<Rightarrow> ''/'')\<rparr>"

definition empty_world :: World where
  "empty_world = \<lparr>heap = [], info_log = []\<rparr>"

definition raw_state :: "(string \<times> string option) State" where
  "raw_state =
     \<lparr>last_comms_handle = Some 0, priv_document = 0, priv_file = None,
      priv_notebook = True, priv_session_coords = new_SessionCoordinates [(''url'', ''u'')],
      priv_server_enabled = True\<rparr>"

definition fresh_state :: "(string \<times> string option) State" where
  "fresh_state = fst (State_init raw_state empty_world)"

definition fresh_world :: World where
  "fresh_world = snd (State_init raw_state empty_world)"

definition served_state :: "(string \<times> string option) State" where
  "served_state =
     (output_notebook fresh_state)
       \<lparr>priv_session_coords :=
          new_SessionCoordinates
            [(''session_id'', ''x''), (''url'', ''default''), (''app_path'', ''/'')],
        priv_server_enabled := True\<rparr>"

section \<open>Facts used throughout\<close>

lemmas accessor_defs = document_def file_of_def notebook_def server_enabled_def

lemmas session_defs =
  session_id_def session_id_allowing_none_def url_def server_url_def app_path_def
  coords_session_id_def coords_session_id_allowing_none_def coords_url_def
  coords_server_url_def coords_app_path_def

lemmas reset_defs = reset_def reset_with_doc_def reset_keeping_doc_def Document_new_def

lemmas sample_defs =
  sample_env_def sample_Resources_def empty_world_def raw_state_def fresh_state_def
  fresh_world_def State_init_def

lemma fresh_state_eq:
  "fresh_state =
     \<lparr>last_comms_handle = None, priv_document = 0, priv_file = None,
      priv_notebook = False, priv_session_coords = new_SessionCoordinates [],
      priv_server_enabled = False\<rparr>"
  by (simp add: sample_defs reset_defs)

lemma fresh_world_eq: "fresh_world = \<lparr>heap = [Document []], info_log = []\<rparr>"
  by (simp add: sample_defs reset_defs)

text \<open>The constructor of the session coordinates accepts the empty dict.\<close>

lemma SessionCoordinates_init_empty:
  "SessionCoordinates_init env [] = Inr (new_SessionCoordinates [])"
  by (simp add: SessionCoordinates_init_def)

lemma sample_output_server:
  "output_server sample_env ''x'' ''default'' ''/'' (output_notebook fresh_state)
     = Inr served_state"
  by (simp add: output_server_def SessionCoordinates_init_def sample_env_def served_state_def)

text \<open>
  \<open>output_file\<close> returns normally exactly when \<open>Resources\<close> accepts the mode and the
  root directory; the new state then differs from the old one in \<open>priv_file\<close> alone.
\<close>

lemma output_file_Inr:
  "output_file env filename title mode root_dir st w = Inr (st', w') \<longleftrightarrow>
     (\<exists>res. Resources env mode root_dir = Inr res
        \<and> st' = st\<lparr>priv_file := Some [(''filename'', Str filename), (''resources'', Res res),
                                        (''title'', Str title)]\<rparr>
        \<and> w' = (if isfile env filename
                 then w\<lparr>info_log := info_log w @ [exists_message filename]\<rparr> else w))"
  by (auto simp: output_file_def split: sum.splits)

lemma sample_output_old:
  "output_file sample_env ''old.html'' ''Bokeh Plot'' ''cdn'' None st w
     = Inr (st\<lparr>priv_file := Some [(''filename'', Str ''old.html''),
                    (''resources'', Res (''cdn'', None)), (''title'', Str ''Bokeh Plot'')]\<rparr>,
            w\<lparr>info_log := info_log w @ [exists_message ''old.html'']\<rparr>)"
  by (simp add: output_file_def sample_env_def sample_Resources_def)

section \<open>Resetting\<close>

text \<open>
  C1: for every \<open>State\<close>, after \<open>reset()\<close> the file configuration is \<open>None\<close>, the
  notebook flag is \<open>False\<close>, the server-enabled flag is \<open>False\<close>, and the session
  coordinates are the ones constructed from an empty dict.
\<close>

theorem reset_clears_modes:
  "file_of (fst (reset st w)) = None
   \<and> notebook (fst (reset st w)) = False
   \<and> server_enabled (fst (reset st w)) = False
   \<and> priv_session_coords (fst (reset st w)) = new_SessionCoordinates []"
  by (simp add: reset_defs accessor_defs)

text \<open>
  C8: \<open>_reset_keeping_doc\<close> clears every output mode (file configuration \<open>None\<close>,
  notebook flag \<open>False\<close>, session coordinates those built from the empty dict,
  server flag \<open>False\<close>) and leaves the owned document as it was.
\<close>

theorem reset_keeping_doc_clears_modes:
  "file_of (reset_keeping_doc st) = None
   \<and> notebook (reset_keeping_doc st) = False
   \<and> priv_session_coords (reset_keeping_doc st) = new_SessionCoordinates []
   \<and> server_enabled (reset_keeping_doc st) = False
   \<and> document (reset_keeping_doc st) = document st"
  by (simp add: reset_keeping_doc_def file_of_def notebook_def server_enabled_def document_def)

text \<open>
  C10: a newly constructed \<open>State\<close> is in the fully reset configuration. It owns a
  document that was not in the heap before and is empty, its file configuration is
  \<open>None\<close>, its notebook flag is \<open>False\<close>, its session coordinates are the empty ones,
  its server-enabled flag is \<open>False\<close> and \<open>last_comms_handle\<close> is \<open>None\<close>. Nothing of
  the instance before \<open>__init__\<close> shows in the result.
\<close>

theorem State_init_fully_reset:
  "document (fst (State_init raw w)) = length (heap w)
   \<and> heap (snd (State_init raw w)) = heap w @ [Document []]
   \<and> heap (snd (State_init raw w)) ! document (fst (State_init raw w)) = Document []
   \<and> file_of (fst (State_init raw w)) = None
   \<and> notebook (fst (State_init raw w)) = False
   \<and> priv_session_coords (fst (State_init raw w)) = new_SessionCoordinates []
   \<and> server_enabled (fst (State_init raw w)) = False
   \<and> last_comms_handle (fst (State_init raw w)) = None
   \<and> fst (State_init raw w) = fst (State_init raw' w)"
  by (simp add: State_init_def reset_defs accessor_defs)

subsection \<open>The documents that \<open>reset\<close> installs\<close>

text \<open>No call shrinks the heap, so a reference allocated once stays allocated.\<close>

lemma heap_exec_mono: "length (heap (snd sw)) \<le> length (heap (snd (exec env c sw)))"
  by (cases sw; cases c)
     (auto simp: reset_defs output_file_def output_server_def split: sum.splits)

text \<open>Every document installed during a run lies beyond the heap the run started from.\<close>

lemma installed_fresh:
  "d \<in> set (installed env cs sw) \<Longrightarrow> length (heap (snd sw)) \<le> d"
proof (induction cs arbitrary: sw)
  case Nil
  then show ?case by simp
next
  case (Cons c cs)
  from Cons.prems consider
    (here) "c = Reset" "d = document (fst (exec env c sw))"
    | (later) "d \<in> set (installed env cs (exec env c sw))"
    by (auto split: if_splits)
  then show ?case
  proof cases
    case here
    then show ?thesis
      by (cases sw) (simp add: reset_defs document_def)
  next
    case later
    show ?thesis
      by (rule order_trans [OF heap_exec_mono Cons.IH [OF later]])
  qed
qed

lemma distinct_installed: "distinct (installed env cs sw)"
proof (induction cs arbitrary: sw)
  case Nil
  then show ?case by simp
next
  case (Cons c cs)
  show ?case
  proof (cases "c = Reset")
    case False
    with Cons.IH show ?thesis by simp
  next
    case True
    obtain st w where sw: "sw = (st, w)" by (cases sw)
    have "document (fst (exec env c sw)) \<notin> set (installed env cs (exec env c sw))"
    proof
      assume "document (fst (exec env c sw)) \<in> set (installed env cs (exec env c sw))"
      from installed_fresh [OF this] show False
        using True sw by (simp add: reset_defs document_def)
    qed
    with Cons.IH True show ?thesis by simp
  qed
qed

text \<open>
  C7: every \<open>reset()\<close> installs a newly constructed document. It is not an object of
  the heap before the call, so it differs from the document held before the call
  (which is such an object), it is empty, and in any run of calls the documents that
  the \<open>reset\<close> calls install are pairwise distinct.
\<close>

theorem reset_installs_new_distinct_document:
  "(document st < length (heap w) \<longrightarrow> document (fst (reset st w)) \<noteq> document st)
   \<and> \<not> document (fst (reset st w)) < length (heap w)
   \<and> heap (snd (reset st w)) ! document (fst (reset st w)) = Document []
   \<and> distinct (installed env cs (st, w))"
  by (simp add: distinct_installed) (auto simp: reset_defs document_def)

theorem reset_installs_new_distinct_document_witness:
  "document fresh_state < length (heap fresh_world)
   \<and> document (fst (reset fresh_state fresh_world)) \<noteq> document fresh_state
   \<and> installed sample_env [Reset, New_document, Set_document 0, Reset]
        (fresh_state, fresh_world) = [1, 3]
   \<and> distinct (installed sample_env [Reset, New_document, Set_document 0, Reset]
        (fresh_state, fresh_world))"
proof -
  have held: "document fresh_state < length (heap fresh_world)"
    by (simp add: fresh_state_eq fresh_world_eq document_def)
  have run: "installed sample_env [Reset, New_document, Set_document 0, Reset]
        (fresh_state, fresh_world) = [1, 3]"
    by (simp add: fresh_state_eq fresh_world_eq reset_defs document_def document_setter_def)
  from reset_installs_new_distinct_document
         [of fresh_state fresh_world sample_env "[Reset, New_document, Set_document 0, Reset]"]
       held run
  show ?thesis by simp
qed

section \<open>File output\<close>

text \<open>
  C2: \<open>output_file(a)\<close> followed by \<open>output_file(b)\<close> leaves the state that
  \<open>output_file(b)\<close> alone produces. The file configuration has the three keys of the
  second call, its \<open>filename\<close> entry is \<open>b\<close>, and nothing of the first call is left.
\<close>

theorem output_file_last_write_wins:
  assumes first: "output_file env a title_a mode_a root_a st w = Inr (st1, w1)"
    and second: "output_file env b title_b mode_b root_b st1 w1 = Inr (st2, w2)"
  shows "(\<exists>w'. output_file env b title_b mode_b root_b st w = Inr (st2, w'))
         \<and> (\<exists>res. Resources env mode_b root_b = Inr res
               \<and> file_of st2 = Some [(''filename'', Str b), (''resources'', Res res),
                                      (''title'', Str title_b)])"
  using assms by (auto simp: output_file_Inr accessor_defs)

theorem output_file_last_write_wins_witness:
  "output_file sample_env ''a.html'' ''A'' ''inline'' None fresh_state fresh_world
     = Inr (fresh_state\<lparr>priv_file := Some [(''filename'', Str ''a.html''),
              (''resources'', Res (''inline'', None)), (''title'', Str ''A'')]\<rparr>, fresh_world)
   \<and> output_file sample_env ''b.html'' ''B'' ''cdn'' None
        (fresh_state\<lparr>priv_file := Some [(''filename'', Str ''a.html''),
              (''resources'', Res (''inline'', None)), (''title'', Str ''A'')]\<rparr>) fresh_world
     = Inr (fresh_state\<lparr>priv_file := Some [(''filename'', Str ''b.html''),
              (''resources'', Res (''cdn'', None)), (''title'', Str ''B'')]\<rparr>, fresh_world)
   \<and> file_of (fresh_state\<lparr>priv_file := Some [(''filename'', Str ''b.html''),
              (''resources'', Res (''cdn'', None)), (''title'', Str ''B'')]\<rparr>)
     = Some [(''filename'', Str ''b.html''), (''resources'', Res (''cdn'', None)),
             (''title'', Str ''B'')]"
proof -
  let ?a = "fresh_state\<lparr>priv_file := Some [(''filename'', Str ''a.html''),
              (''resources'', Res (''inline'', None)), (''title'', Str ''A'')]\<rparr>"
  let ?b = "fresh_state\<lparr>priv_file := Some [(''filename'', Str ''b.html''),
              (''resources'', Res (''cdn'', None)), (''title'', Str ''B'')]\<rparr>"
  have first: "output_file sample_env ''a.html'' ''A'' ''inline'' None fresh_state fresh_world
                 = Inr (?a, fresh_world)"
    by (simp add: output_file_def sample_env_def sample_Resources_def)
  have second: "output_file sample_env ''b.html'' ''B'' ''cdn'' None ?a fresh_world
                  = Inr (?b, fresh_world)"
    by (simp add: output_file_def sample_env_def sample_Resources_def)
  from output_file_last_write_wins [OF first second]
  have "\<exists>res. Resources sample_env ''cdn'' None = Inr res
          \<and> file_of ?b = Some [(''filename'', Str ''b.html''), (''resources'', Res res),
                                (''title'', Str ''B'')]"
    by blast
  then have "file_of ?b = Some [(''filename'', Str ''b.html''), (''resources'', Res (''cdn'', None)),
                                (''title'', Str ''B'')]"
    by (auto simp: sample_env_def sample_Resources_def)
  with first second show ?thesis by blast
qed

text \<open>
  C4: a call of \<open>output_file\<close> that returns changes the file configuration only. The
  document, the notebook flag, the session coordinates, the server-enabled flag and
  \<open>last_comms_handle\<close> are as before, and so is the heap.
\<close>

theorem output_file_frame:
  assumes "output_file env filename title mode root_dir st w = Inr (st', w')"
  shows "document st' = document st
         \<and> notebook st' = notebook st
         \<and> priv_session_coords st' = priv_session_coords st
         \<and> server_enabled st' = server_enabled st
         \<and> last_comms_handle st' = last_comms_handle st
         \<and> st' = st\<lparr>priv_file := priv_file st'\<rparr>
         \<and> heap w' = heap w"
  using assms by (auto simp: output_file_Inr accessor_defs)

theorem output_file_frame_witness:
  "output_file sample_env ''old.html'' ''Bokeh Plot'' ''cdn'' None
       served_state fresh_world
     = Inr (served_state
              \<lparr>priv_file := Some [(''filename'', Str ''old.html''),
                    (''resources'', Res (''cdn'', None)), (''title'', Str ''Bokeh Plot'')]\<rparr>,
            fresh_world\<lparr>info_log := info_log fresh_world @ [exists_message ''old.html'']\<rparr>)
   \<and> notebook (served_state
              \<lparr>priv_file := Some [(''filename'', Str ''old.html''),
                    (''resources'', Res (''cdn'', None)), (''title'', Str ''Bokeh Plot'')]\<rparr>)
       = notebook served_state
   \<and> server_enabled (served_state
              \<lparr>priv_file := Some [(''filename'', Str ''old.html''),
                    (''resources'', Res (''cdn'', None)), (''title'', Str ''Bokeh Plot'')]\<rparr>)
       = server_enabled served_state"
  using output_file_frame [OF sample_output_old
          [of served_state fresh_world]]
    sample_output_old
          [of served_state fresh_world]
  by blast

text \<open>
  C9: whether the target file exists has no part in the outcome of \<open>output_file\<close>.
  The call raises or returns, and returns the same state, whatever \<open>os.path.isfile\<close>
  answers. Whenever \<open>Resources\<close> accepts the mode and the root directory the call
  returns with the new configuration set, and an existing file adds one message to
  the log and nothing else.
\<close>

theorem output_file_outcome_ignores_existing_file:
  "map_sum id fst (output_file (env\<lparr>isfile := exists1\<rparr>) filename title mode root_dir st w)
     = map_sum id fst (output_file (env\<lparr>isfile := exists2\<rparr>) filename title mode root_dir st w)
   \<and> (Resources env mode root_dir = Inr res \<longrightarrow>
        (\<exists>w'. output_file env filename title mode root_dir st w
                 = Inr (st\<lparr>priv_file := Some [(''filename'', Str filename),
                                (''resources'', Res res), (''title'', Str title)]\<rparr>, w')
           \<and> heap w' = heap w
           \<and> info_log w' = info_log w
                @ (if isfile env filename then [exists_message filename] else [])))"
  by (simp add: output_file_def split: sum.splits)

theorem output_file_outcome_ignores_existing_file_witness:
  "Resources sample_env ''cdn'' None = Inr (''cdn'', None)
   \<and> isfile sample_env ''old.html''
   \<and> output_file sample_env ''old.html'' ''Bokeh Plot'' ''cdn'' None fresh_state fresh_world
       = Inr (fresh_state\<lparr>priv_file := Some [(''filename'', Str ''old.html''),
                (''resources'', Res (''cdn'', None)), (''title'', Str ''Bokeh Plot'')]\<rparr>,
              fresh_world\<lparr>info_log := [exists_message ''old.html'']\<rparr>)"
proof -
  have res: "Resources sample_env ''cdn'' None = Inr (''cdn'', None)"
    by (simp add: sample_env_def sample_Resources_def)
  have ex: "isfile sample_env ''old.html''"
    by (simp add: sample_env_def)
  from output_file_outcome_ignores_existing_file
         [where env = sample_env and filename = "''old.html''" and title = "''Bokeh Plot''"
            and mode = "''cdn''" and root_dir = None and st = fresh_state and w = fresh_world
            and res = "(''cdn'', None)"] res ex
  obtain w' where
    out: "output_file sample_env ''old.html'' ''Bokeh Plot'' ''cdn'' None fresh_state fresh_world
            = Inr (fresh_state\<lparr>priv_file := Some [(''filename'', Str ''old.html''),
                (''resources'', Res (''cdn'', None)), (''title'', Str ''Bokeh Plot'')]\<rparr>, w')"
    and h: "heap w' = heap fresh_world"
    and l: "info_log w' = info_log fresh_world @ [exists_message ''old.html'']"
    by auto
  from h l have "w' = fresh_world\<lparr>info_log := [exists_message ''old.html'']\<rparr>"
    by (cases w') (simp add: fresh_world_eq)
  with out res ex show ?thesis by simp
qed

section \<open>Output modes add up\<close>

text \<open>
  C3: after \<open>output_notebook()\<close> and then \<open>output_file(...)\<close> both modes are active:
  the notebook flag is \<open>True\<close> and the file configuration is the one \<open>output_file\<close>
  set. A further \<open>output_notebook()\<close> leaves that file configuration in place.
\<close>

theorem notebook_then_file_both_active:
  assumes "output_file env filename title mode root_dir (output_notebook st) w = Inr (st', w')"
  shows "notebook st' = True
         \<and> (\<exists>res. Resources env mode root_dir = Inr res
               \<and> file_of st' = Some [(''filename'', Str filename), (''resources'', Res res),
                                      (''title'', Str title)])
         \<and> file_of (output_notebook st') = file_of st'
         \<and> notebook (output_notebook st') = True"
  using assms by (auto simp: output_file_Inr output_notebook_def accessor_defs)

theorem notebook_then_file_both_active_witness:
  "output_file sample_env ''old.html'' ''Bokeh Plot'' ''cdn'' None (output_notebook fresh_state)
       fresh_world
     = Inr ((output_notebook fresh_state)
              \<lparr>priv_file := Some [(''filename'', Str ''old.html''),
                    (''resources'', Res (''cdn'', None)), (''title'', Str ''Bokeh Plot'')]\<rparr>,
            fresh_world\<lparr>info_log := info_log fresh_world @ [exists_message ''old.html'']\<rparr>)
   \<and> notebook ((output_notebook fresh_state)
              \<lparr>priv_file := Some [(''filename'', Str ''old.html''),
                    (''resources'', Res (''cdn'', None)), (''title'', Str ''Bokeh Plot'')]\<rparr>)
       = True"
  using notebook_then_file_both_active [OF sample_output_old
          [of "output_notebook fresh_state" fresh_world]]
    sample_output_old [of "output_notebook fresh_state" fresh_world]
  by blast

text \<open>
  C5: a call \<open>output_server(session_id=sid)\<close> that returns has set the server-enabled
  flag, and afterwards the property \<open>session_id\<close> reads \<open>sid\<close> and changes nothing. The
  call returns exactly when the constructor of the session coordinates accepts the
  three arguments; otherwise it raises \<open>ValueError\<close>.
\<close>

theorem output_server_session_id_readable:
  "(output_server env sid base_url path st = Inr st' \<longrightarrow>
        server_enabled st' = True
      \<and> session_id env st' = (sid, st')
      \<and> session_id_allowing_none st' = (Some sid, st'))
   \<and> (arg_ok env ''session_id'' sid \<and> arg_ok env ''url'' base_url
        \<and> arg_ok env ''app_path'' path \<longrightarrow>
        output_server env sid base_url path st
          = Inr (st\<lparr>priv_session_coords :=
                       new_SessionCoordinates
                         [(''session_id'', sid), (''url'', base_url), (''app_path'', path)],
                     priv_server_enabled := True\<rparr>))
   \<and> (\<not> (arg_ok env ''session_id'' sid \<and> arg_ok env ''url'' base_url
           \<and> arg_ok env ''app_path'' path) \<longrightarrow>
        output_server env sid base_url path st = Inl ValueError)"
  by (auto simp: output_server_def SessionCoordinates_init_def new_SessionCoordinates_def
        accessor_defs session_defs split: if_splits)

theorem output_server_session_id_readable_witness:
  "output_server sample_env ''x'' ''default'' ''/'' (output_notebook fresh_state)
     = Inr served_state
   \<and> server_enabled served_state = True
   \<and> session_id sample_env served_state = (''x'', served_state)
   \<and> arg_ok sample_env ''session_id'' ''x''
   \<and> arg_ok sample_env ''url'' ''default''
   \<and> arg_ok sample_env ''app_path'' ''/''
   \<and> \<not> arg_ok sample_env ''url'' ''ws://h:1/ws''
   \<and> output_server sample_env ''x'' ''ws://h:1/ws'' ''/'' fresh_state = Inl ValueError"
proof -
  have ok: "arg_ok sample_env ''session_id'' ''x''" "arg_ok sample_env ''url'' ''default''"
    "arg_ok sample_env ''app_path'' ''/''"
    by (simp_all add: sample_env_def)
  have bad: "\<not> arg_ok sample_env ''url'' ''ws://h:1/ws''"
    by (simp add: sample_env_def)
  from output_server_session_id_readable
         [of sample_env "''x''" "''default''" "''/''" "output_notebook fresh_state" served_state]
       sample_output_server
  have "server_enabled served_state = True"
    "session_id sample_env served_state = (''x'', served_state)"
    by simp_all
  moreover
  from output_server_session_id_readable
         [of sample_env "''x''" "''ws://h:1/ws''" "''/''" fresh_state] bad
  have "output_server sample_env ''x'' ''ws://h:1/ws'' ''/'' fresh_state = Inl ValueError"
    by blast
  ultimately show ?thesis
    using ok bad sample_output_server by simp
qed

section \<open>Reading and assigning properties\<close>




end
